theory Spec2Isabelle
  imports Main
begin

section \<open>The stream responder of express-hotwire\<close>

text \<open>
  A shallow embedding of \<^verbatim>\<open>src/lib/hotwire-middleware.ts\<close>. The file holds one
  Express middleware. It attaches an object \<^verbatim>\<open>turboStream\<close> to the response, with one
  method per stream action; a method sets the content type, renders a view partial when
  one is named, wraps the result in a fixed markup envelope and sends it.

  Conventions of the model.
  \<^item> A JavaScript string is a \<^typ>\<open>string\<close>. The code only concatenates strings and tests
    one for emptiness, so the width of a character plays no role.
  \<^item> \<^verbatim>\<open>undefined\<close> is \<open>None\<close>: an omitted \<^verbatim>\<open>options\<close> argument, an omitted
    \<^verbatim>\<open>locals\<close> property, a \<^verbatim>\<open>partial\<close> that holds \<^verbatim>\<open>undefined\<close> at run time (the declared
    type says \<^verbatim>\<open>string\<close>, the code tests it all the same), and the absent
    \<^verbatim>\<open>err\<close> argument of a render callback.
  \<^item> The response object is mutable and shared by the closures of the middleware. The
    model passes its state explicitly. Express, Node and the view engine are not part of
    the repository: every call the code makes to them is appended to the log
    \<open>effects\<close> of the response, in the order the calls are made, and what the view engine
    answers is a parameter \<open>view\<close> of the model.
  \<^item> A promise that settles is a sum: \<open>Inl err\<close> is a rejection with \<open>err\<close>,
    \<open>Inr v\<close> a fulfilment with \<open>v\<close>. The view engine is taken to call back exactly once,
    and \<^verbatim>\<open>setHeader\<close> and \<^verbatim>\<open>send\<close> are taken not to throw (the response has not been
    finalised before the method is called).
\<close>

subsection \<open>Data\<close>

text \<open>The enumeration \<^verbatim>\<open>TurboStreamActions\<close> and the string value of each member.\<close>

datatype TurboStreamActions = Append | Prepend | Replace | Update | Remove

fun action_value :: "TurboStreamActions \<Rightarrow> string" where
  "action_value Append = ''append''"
| "action_value Prepend = ''prepend''"
| "action_value Replace = ''replace''"
| "action_value Update = ''update''"
| "action_value Remove = ''remove''"

text \<open>\<^verbatim>\<open>Locals = Record<string, unknown>\<close>: property names with values of any type.\<close>

type_synonym 'v Locals = "(string \<times> 'v) list"

record 'v StreamOptions =
  partial :: "string option"
  locals :: "'v Locals option"

text \<open>
  Node's \<^verbatim>\<open>setHeader\<close> takes a string or an array of strings as the value of a header.
\<close>

datatype header_value = Single string | Multi "string list"

text \<open>The calls the code makes on its collaborators.\<close>

datatype 'v effect =
    is_SetHeader: SetHeader string header_value
  | is_Render: Render string "'v Locals option"
  | is_Send: Send string
  | is_Next: Next

text \<open>
  A method of the \<^verbatim>\<open>turboStream\<close> object is the closure
  \<^verbatim>\<open>streamActionHandler(action)\<close>; it is represented by the action it captured.
\<close>

datatype handler = StreamActionHandler TurboStreamActions

record TurboStream =
  append_method :: handler
  prepend_method :: handler
  replace_method :: handler
  update_method :: handler
  remove_method :: handler

record 'v Response =
  effects :: "'v effect list"
  turboStream :: "TurboStream option"

text \<open>
  The arguments the view engine passes to the callback of \<^verbatim>\<open>res.render\<close>:
  \<^verbatim>\<open>(err, html)\<close>.
\<close>

type_synonym ('v, 'e) view = "string \<Rightarrow> 'v Locals option \<Rightarrow> 'e option \<times> string"

subsection \<open>Calls on the response\<close>

definition call :: "'v effect \<Rightarrow> 'v Response \<Rightarrow> 'v Response" where
  "call e res = res\<lparr>effects := effects res @ [e]\<rparr>"

definition setHeader :: "string \<Rightarrow> header_value \<Rightarrow> 'v Response \<Rightarrow> 'v Response" where
  "setHeader name v res = call (SetHeader name v) res"

definition send :: "string \<Rightarrow> 'v Response \<Rightarrow> 'v Response" where
  "send body res = call (Send body) res"

subsection \<open>The functions of the source\<close>

text \<open>
  \<^verbatim>\<open>render\<close>: calls \<^verbatim>\<open>res.render(partial, locals, callback)\<close>; the callback rejects with
  \<^verbatim>\<open>err\<close> when it is set and resolves with \<^verbatim>\<open>html\<close> otherwise.
\<close>

definition render ::
  "('v, 'e) view \<Rightarrow> 'v Response \<Rightarrow> string \<Rightarrow> 'v Locals option \<Rightarrow> 'v Response \<times> ('e + string)"
where
  "render view res p ls =
     (let res' = call (Render p ls) res;
          (err, html) = view p ls
      in case err of
           Some e \<Rightarrow> (res', Inl e)
         | None \<Rightarrow> (res', Inr html))"

text \<open>The template literal that \<^verbatim>\<open>stream\<close> returns.\<close>

definition envelope :: "string \<Rightarrow> string \<Rightarrow> string \<Rightarrow> string" where
  \<open>envelope action target content =
     ''\<newline>  <turbo-stream action="'' @ action @ ''" target="'' @ target @ ''">\<newline>'' @
     ''    <template>\<newline>'' @
     content @ ''\<newline>'' @
     ''    </template>\<newline>'' @
     ''  </turbo-stream>\<newline>'' @
     ''  ''\<close>

text \<open>
  \<^verbatim>\<open>stream\<close>. The test \<^verbatim>\<open>options?.partial\<close> is one of truthiness: it fails when
  \<^verbatim>\<open>options\<close> is undefined, when \<^verbatim>\<open>partial\<close> is undefined and when \<^verbatim>\<open>partial\<close> is the
  empty string.
\<close>

definition stream ::
  "('v, 'e) view \<Rightarrow> 'v Response \<Rightarrow> string \<Rightarrow> TurboStreamActions \<Rightarrow> 'v StreamOptions option
     \<Rightarrow> 'v Response \<times> ('e + string)"
where
  "stream view res target action options =
     (let (res', content) =
            (case options of
               None \<Rightarrow> (res, Inr '''')
             | Some opts \<Rightarrow>
                 (case partial opts of
                    None \<Rightarrow> (res, Inr '''')
                  | Some p \<Rightarrow>
                      if p \<noteq> '''' then render view res p (locals opts)
                      else (res, Inr '''')))
      in case content of
           Inl err \<Rightarrow> (res', Inl err)
         | Inr html \<Rightarrow> (res', Inr (envelope (action_value action) target html)))"

text \<open>
  \<^verbatim>\<open>streamActionHandler(action)\<close>, applied to \<^verbatim>\<open>(target, options)\<close>. The header is set
  first; the argument of \<^verbatim>\<open>res.send\<close> is awaited next; \<^verbatim>\<open>res.send\<close> runs only when the
  awaited promise is fulfilled.
\<close>

definition streamActionHandler ::
  "('v, 'e) view \<Rightarrow> TurboStreamActions \<Rightarrow> string \<Rightarrow> 'v StreamOptions option \<Rightarrow> 'v Response
     \<Rightarrow> 'v Response \<times> ('e + unit)"
where
  "streamActionHandler view action target options res =
     (let res1 = setHeader ''Content-Type'' (Multi [''text/html; turbo-stream; charset=utf-8'']) res
      in case stream view res1 target action options of
           (res2, Inl err) \<Rightarrow> (res2, Inl err)
         | (res2, Inr body) \<Rightarrow> (send body res2, Inr ()))"

text \<open>The object literal \<^verbatim>\<open>turboStream\<close> built by the middleware.\<close>

definition turboStream_object :: TurboStream where
  "turboStream_object =
     \<lparr> append_method = StreamActionHandler Append,
       prepend_method = StreamActionHandler Prepend,
       replace_method = StreamActionHandler Replace,
       update_method = StreamActionHandler Update,
       remove_method = StreamActionHandler Remove \<rparr>"

text \<open>
  \<^verbatim>\<open>middleware\<close>: attaches the object and calls \<^verbatim>\<open>next()\<close>. What the rest of the
  pipeline does to the response is the parameter \<open>next\<close>.
\<close>

definition middleware ::
  "'req \<Rightarrow> 'v Response \<Rightarrow> ('v Response \<Rightarrow> 'v Response) \<Rightarrow> 'v Response"
where
  "middleware req res next =
     (let res' = res\<lparr>turboStream := Some turboStream_object\<rparr>
      in next (call Next res'))"

definition buildMiddleware ::
  "unit \<Rightarrow> 'req \<Rightarrow> 'v Response \<Rightarrow> ('v Response \<Rightarrow> 'v Response) \<Rightarrow> 'v Response"
where
  "buildMiddleware u = middleware"

subsection \<open>Calling a method of the attached object\<close>

text \<open>Property lookup \<^verbatim>\<open>turboStream[key]\<close> and the call of the closure found there.\<close>

fun entry :: "TurboStream \<Rightarrow> TurboStreamActions \<Rightarrow> handler" where
  "entry ts Append = append_method ts"
| "entry ts Prepend = prepend_method ts"
| "entry ts Replace = replace_method ts"
| "entry ts Update = update_method ts"
| "entry ts Remove = remove_method ts"

fun invoke ::
  "('v, 'e) view \<Rightarrow> handler \<Rightarrow> string \<Rightarrow> 'v StreamOptions option \<Rightarrow> 'v Response
     \<Rightarrow> 'v Response \<times> ('e + unit)"
where
  "invoke view (StreamActionHandler action) = streamActionHandler view action"

definition action_method ::
  "('v, 'e) view \<Rightarrow> TurboStreamActions \<Rightarrow> string \<Rightarrow> 'v StreamOptions option \<Rightarrow> 'v Response
     \<Rightarrow> 'v Response \<times> ('e + unit)"
where
  "action_method view key = invoke view (entry turboStream_object key)"

subsection \<open>Reading the log\<close>

fun render_calls :: "'v effect list \<Rightarrow> (string \<times> 'v Locals option) list" where
  "render_calls [] = []"
| "render_calls (Render p ls # es) = (p, ls) # render_calls es"
| "render_calls (e # es) = render_calls es"

fun headers_set :: "'v effect list \<Rightarrow> (string \<times> header_value) list" where
  "headers_set [] = []"
| "headers_set (SetHeader n v # es) = (n, v) # headers_set es"
| "headers_set (e # es) = headers_set es"

text \<open>
  The header lines a value stands for on the response: Node writes one line for a string
  and one line per element for an array. \<open>header_lines_set\<close> lists, with the name of
  the header, the lines that the \<^verbatim>\<open>setHeader\<close> calls of a log stand for.
\<close>

fun header_lines :: "header_value \<Rightarrow> string list" where
  "header_lines (Single s) = [s]"
| "header_lines (Multi ss) = ss"

fun header_lines_set :: "'v effect list \<Rightarrow> (string \<times> string) list" where
  "header_lines_set [] = []"
| "header_lines_set (SetHeader n v # es) = map (Pair n) (header_lines v) @ header_lines_set es"
| "header_lines_set (e # es) = header_lines_set es"

fun bodies_sent :: "'v effect list \<Rightarrow> string list" where
  "bodies_sent [] = []"
| "bodies_sent (Send b # es) = b # bodies_sent es"
| "bodies_sent (e # es) = bodies_sent es"

text \<open>The calls an operation added to the log of \<open>res\<close>.\<close>

definition new_effects :: "'v Response \<Rightarrow> 'v Response \<Rightarrow> 'v effect list" where
  "new_effects res res' = drop (length (effects res)) (effects res')"

text \<open>
  \<open>before P Q es\<close>: in the log \<open>es\<close> no call of kind \<open>P\<close> comes after a call of kind
  \<open>Q\<close>, that is, every \<open>P\<close> call is made before every \<open>Q\<close> call.
\<close>

fun before :: "('a \<Rightarrow> bool) \<Rightarrow> ('a \<Rightarrow> bool) \<Rightarrow> 'a list \<Rightarrow> bool" where
  "before P Q [] = True"
| "before P Q (e # es) = ((if Q e then \<not> list_ex P es else True) \<and> before P Q es)"

text \<open>The property \<^verbatim>\<open>partial\<close> is absent: no options, or options without it.\<close>

definition partial_absent :: "'v StreamOptions option \<Rightarrow> bool" where
  "partial_absent options = (case options of None \<Rightarrow> True | Some opts \<Rightarrow> partial opts = None)"

subsection \<open>The envelope as the specification writes it\<close>

text \<open>
  Section 6.1 of the specification gives the envelope as five lines: the first starts with
  two spaces and the last ends with the closing tag. This definition follows that text, to
  be compared with \<open>envelope\<close>, which follows the template literal of the source.
\<close>

definition spec_envelope :: "string \<Rightarrow> string \<Rightarrow> string \<Rightarrow> string" where
  \<open>spec_envelope action target content =
     ''  <turbo-stream action="'' @ action @ ''" target="'' @ target @ ''">\<newline>'' @
     ''    <template>\<newline>'' @
     content @ ''\<newline>'' @
     ''    </template>\<newline>'' @
     ''  </turbo-stream>''\<close>

subsection \<open>The example of the source's documentation\<close>

text \<open>
  The documentation comment of \<^verbatim>\<open>TurboStream\<close> calls
  \<^verbatim>\<open>res.turboStream.append('messages', { partial: 'messages/show', locals: { message:
  { id: 1, content: 'My new message' } } })\<close>. The definitions below are that call, a
  response nothing has been done to, and a view engine that knows the one partial.
\<close>

datatype js_value = JNumber int | JString string | JObject "(string \<times> js_value) list"

definition example_locals :: "js_value Locals" where
  "example_locals =
     [(''message'', JObject [(''id'', JNumber 1), (''content'', JString ''My new message'')])]"

definition example_options :: "js_value StreamOptions" where
  "example_options = \<lparr> partial = Some ''messages/show'', locals = Some example_locals \<rparr>"

definition example_view :: "(js_value, string) view" where
  "example_view p ls =
     (if p = ''messages/show'' then (None, ''<p>My new message</p>'')
      else (Some (''Failed to lookup view '' @ p), ''''))"

definition fresh_response :: "js_value Response" where
  "fresh_response = \<lparr> effects = [], turboStream = None \<rparr>"

section \<open>Properties\<close>

subsection \<open>What one call of a method does\<close>

lemma action_method_handler: "action_method view key = streamActionHandler view key"
  by (cases key) (simp_all add: action_method_def turboStream_object_def)

lemma new_effects_append: "new_effects res (res\<lparr>effects := effects res @ es\<rparr>) = es"
  by (simp add: new_effects_def)

text \<open>No partial to render: the header is set and the envelope of the empty fragment sent.\<close>

lemma handler_without_partial:
  assumes "case options of None \<Rightarrow> True
           | Some opts \<Rightarrow> partial opts = None \<or> partial opts = Some ''''"
  shows "streamActionHandler view action target options res =
    (res\<lparr>effects := effects res @
       [SetHeader ''Content-Type'' (Multi [''text/html; turbo-stream; charset=utf-8'']),
        Send (envelope (action_value action) target '''')]\<rparr>, Inr ())"
  using assms
  by (auto simp: streamActionHandler_def stream_def setHeader_def send_def call_def
      split: option.splits)

text \<open>A partial that the view engine renders.\<close>

lemma handler_resolved:
  assumes "options = Some opts" and "partial opts = Some p" and "p \<noteq> ''''"
    and "view p (locals opts) = (None, html)"
  shows "streamActionHandler view action target options res =
    (res\<lparr>effects := effects res @
       [SetHeader ''Content-Type'' (Multi [''text/html; turbo-stream; charset=utf-8'']),
        Render p (locals opts),
        Send (envelope (action_value action) target html)]\<rparr>, Inr ())"
  using assms
  by (simp add: streamActionHandler_def stream_def render_def setHeader_def send_def call_def)

text \<open>A partial that the view engine fails on.\<close>

lemma handler_rejected:
  assumes "options = Some opts" and "partial opts = Some p" and "p \<noteq> ''''"
    and "view p (locals opts) = (Some err, html)"
  shows "streamActionHandler view action target options res =
    (res\<lparr>effects := effects res @
       [SetHeader ''Content-Type'' (Multi [''text/html; turbo-stream; charset=utf-8'']),
        Render p (locals opts)]\<rparr>, Inl err)"
  using assms
  by (simp add: streamActionHandler_def stream_def render_def setHeader_def send_def call_def)

text \<open>The three cases are all there are.\<close>

lemma handler_cases:
  obtains
    (plain) "case options of None \<Rightarrow> True
             | Some opts \<Rightarrow> partial opts = None \<or> partial opts = Some ''''"
  | (resolved) opts p html where "options = Some opts" and "partial opts = Some p"
      and "p \<noteq> ''''" and "view p (locals opts) = (None, html)"
  | (rejected) opts p err html where "options = Some opts" and "partial opts = Some p"
      and "p \<noteq> ''''" and "view p (locals opts) = (Some err, html)"
proof (cases options)
  case None
  then show ?thesis using plain by simp
next
  case (Some opts)
  show ?thesis
  proof (cases "partial opts")
    case None
    with Some show ?thesis using plain by simp
  next
    case (Some p) note p = this
    show ?thesis
    proof (cases "p = ''''")
      case True
      with p \<open>options = Some opts\<close> show ?thesis using plain by simp
    next
      case False
      obtain err html where v: "view p (locals opts) = (err, html)"
        by (cases "view p (locals opts)")
      show ?thesis
      proof (cases err)
        case None
        with v p False \<open>options = Some opts\<close> show ?thesis using resolved by simp
      next
        case (Some e)
        with v p False \<open>options = Some opts\<close> show ?thesis using rejected by simp
      qed
    qed
  qed
qed

lemma envelope_spec_envelope:
  "envelope a t c = ''\<newline>'' @ spec_envelope a t c @ ''\<newline>  ''"
  by (simp add: envelope_def spec_envelope_def)

lemma example_call:
  "action_method example_view Append ''messages'' (Some example_options) fresh_response =
     (\<lparr>effects =
        [SetHeader ''Content-Type'' (Multi [''text/html; turbo-stream; charset=utf-8'']),
         Render ''messages/show'' (Some example_locals),
         Send (envelope ''append'' ''messages'' ''<p>My new message</p>'')],
       turboStream = None\<rparr>, Inr ())"
  by (simp add: action_method_handler
      handler_resolved [where opts = example_options and p = "''messages/show''"
        and html = "''<p>My new message</p>''"]
      example_options_def example_view_def fresh_response_def)

lemma example_call_no_options:
  "action_method example_view Append ''messages'' None fresh_response =
     (\<lparr>effects =
        [SetHeader ''Content-Type'' (Multi [''text/html; turbo-stream; charset=utf-8'']),
         Send (envelope ''append'' ''messages'' '''')],
       turboStream = None\<rparr>, Inr ())"
  by (simp add: action_method_handler handler_without_partial fresh_response_def)

lemma example_call_unknown_partial:
  "action_method example_view Append ''messages''
       (Some \<lparr>partial = Some ''nope'', locals = None\<rparr>) fresh_response =
     (\<lparr>effects =
        [SetHeader ''Content-Type'' (Multi [''text/html; turbo-stream; charset=utf-8'']),
         Render ''nope'' None],
       turboStream = None\<rparr>, Inl ''Failed to lookup view nope'')"
  by (simp add: action_method_handler
      handler_rejected [where opts = "\<lparr>partial = Some ''nope'', locals = None\<rparr>"
        and p = "''nope''" and html = "''''"]
      example_view_def fresh_response_def)


subsection \<open>The body that is written\<close>

text \<open>
  Claim C1, as stated, compared with the code. The claim says that the body is exactly the
  template of section 6.1 with action, target and fragment put in. For the call
  \<^verbatim>\<open>append('messages')\<close> the body the code sends is neither that text nor that text
  followed by a line feed.
\<close>

theorem envelope_not_spec_template:
  "bodies_sent (new_effects fresh_response
       (fst (action_method example_view Append ''messages'' None fresh_response)))
     \<noteq> [spec_envelope ''append'' ''messages'' '''']
   \<and> bodies_sent (new_effects fresh_response
       (fst (action_method example_view Append ''messages'' None fresh_response)))
     \<noteq> [spec_envelope ''append'' ''messages'' '''' @ ''\<newline>'']"
  unfolding example_call_no_options
  by (simp add: new_effects_def fresh_response_def envelope_def spec_envelope_def)

text \<open>
  Claim C1, amended: for every action, every target and every rendered fragment (the
  empty string when no partial is rendered), the method writes exactly one body: a line
  feed, then the template of section 6.1 with the action name, the target and the
  fragment substituted and nothing escaped, then a line feed and two spaces.
\<close>

theorem envelope_written:
  "((case options of None \<Rightarrow> True
     | Some opts \<Rightarrow> partial opts = None \<or> partial opts = Some '''') \<longrightarrow>
      bodies_sent (new_effects res (fst (action_method view key target options res))) =
        [''\<newline>'' @ spec_envelope (action_value key) target '''' @ ''\<newline>  ''])
   \<and> (options = Some opts \<and> partial opts = Some p \<and> p \<noteq> '''' \<and>
        view p (locals opts) = (None, html) \<longrightarrow>
      bodies_sent (new_effects res (fst (action_method view key target options res))) =
        [''\<newline>'' @ spec_envelope (action_value key) target html @ ''\<newline>  ''])"
proof (intro conjI impI)
  assume "case options of None \<Rightarrow> True
          | Some opts \<Rightarrow> partial opts = None \<or> partial opts = Some ''''"
  then show "bodies_sent (new_effects res (fst (action_method view key target options res))) =
      [''\<newline>'' @ spec_envelope (action_value key) target '''' @ ''\<newline>  '']"
    by (simp only: action_method_handler handler_without_partial fst_conv new_effects_append
        envelope_spec_envelope bodies_sent.simps)
next
  assume "options = Some opts \<and> partial opts = Some p \<and> p \<noteq> '''' \<and>
      view p (locals opts) = (None, html)"
  then have "streamActionHandler view key target options res =
    (res\<lparr>effects := effects res @
       [SetHeader ''Content-Type'' (Multi [''text/html; turbo-stream; charset=utf-8'']),
        Render p (locals opts),
        Send (envelope (action_value key) target html)]\<rparr>, Inr ())"
    by (intro handler_resolved) simp_all
  then show "bodies_sent (new_effects res (fst (action_method view key target options res))) =
      [''\<newline>'' @ spec_envelope (action_value key) target html @ ''\<newline>  '']"
    by (simp only: action_method_handler fst_conv new_effects_append
        envelope_spec_envelope bodies_sent.simps)
qed

theorem envelope_written_witness:
  "bodies_sent (new_effects fresh_response
       (fst (action_method example_view Append ''messages'' None fresh_response))) =
     [''\<newline>'' @ spec_envelope ''append'' ''messages'' '''' @ ''\<newline>  '']
   \<and> example_view ''messages/show'' (locals example_options) = (None, ''<p>My new message</p>'')
   \<and> bodies_sent (new_effects fresh_response
       (fst (action_method example_view Append ''messages'' (Some example_options)
          fresh_response))) =
     [''\<newline>'' @ spec_envelope ''append'' ''messages'' ''<p>My new message</p>'' @ ''\<newline>  '']"
  using envelope_written [where options = None and res = fresh_response
      and view = example_view and key = Append and target = "''messages''"]
    envelope_written [where options = "Some example_options" and opts = example_options
      and p = "''messages/show''" and view = example_view
      and html = "''<p>My new message</p>''" and res = fresh_response and key = Append
      and target = "''messages''"]
  by (simp add: example_options_def example_view_def)

subsection \<open>Rendering the partial\<close>

text \<open>
  Claim C2, as stated, compared with the code. Options whose partial is the empty string
  include a partial, and the view engine is not called for them: the code tests the
  truthiness of \<^verbatim>\<open>options?.partial\<close>.
\<close>

theorem empty_partial_not_rendered:
  "length (render_calls (new_effects fresh_response
       (fst (action_method example_view Append ''messages''
          (Some \<lparr>partial = Some '''', locals = Some example_locals\<rparr>) fresh_response))))
     \<noteq> 1"
  by (simp add: action_method_handler handler_without_partial new_effects_append)

text \<open>
  Claim C2, amended: for every call of an action method whose options include a
  non-empty partial, the view engine is called exactly once, with exactly that partial
  and the locals the caller supplied (possibly absent), and the HTML string it resolves
  with stands unmodified between the line of the opening template tag and the line of the
  closing template tag of the one body that is sent.
\<close>

theorem partial_rendered_once:
  assumes \<open>options = Some opts\<close> and \<open>partial opts = Some p\<close> and \<open>p \<noteq> ''''\<close>
  shows \<open>render_calls (new_effects res (fst (action_method view key target options res))) =
      [(p, locals opts)]
    \<and> (\<forall>html. view p (locals opts) = (None, html) \<longrightarrow>
         bodies_sent (new_effects res (fst (action_method view key target options res))) =
           [''\<newline>  <turbo-stream action="'' @ action_value key @
              ''" target="'' @ target @ ''">\<newline>'' @
            ''    <template>\<newline>'' @ html @ ''\<newline>    </template>\<newline>'' @
            ''  </turbo-stream>\<newline>  ''])\<close>
proof (cases "view p (locals opts)")
  case (Pair err html')
  show ?thesis
  proof (cases err)
    case None
    with Pair have "view p (locals opts) = (None, html')" by simp
    from handler_resolved [where view = view and action = key and target = target
        and res = res, OF assms this]
    show ?thesis
      using \<open>view p (locals opts) = (None, html')\<close>
      by (simp add: action_method_handler new_effects_append envelope_def)
  next
    case (Some e)
    with Pair have "view p (locals opts) = (Some e, html')" by simp
    from handler_rejected [where view = view and action = key and target = target
        and res = res, OF assms this]
    show ?thesis
      using \<open>view p (locals opts) = (Some e, html')\<close>
      by (simp add: action_method_handler new_effects_append)
  qed
qed

theorem partial_rendered_once_witness:
  \<open>render_calls (new_effects fresh_response
       (fst (action_method example_view Append ''messages'' (Some example_options)
          fresh_response))) =
     [(''messages/show'', Some example_locals)]
   \<and> example_view ''messages/show'' (Some example_locals) = (None, ''<p>My new message</p>'')
   \<and> bodies_sent (new_effects fresh_response
       (fst (action_method example_view Append ''messages'' (Some example_options)
          fresh_response))) =
     [''\<newline>  <turbo-stream action="append" target="messages">\<newline>'' @
      ''    <template>\<newline><p>My new message</p>\<newline>    </template>\<newline>'' @
      ''  </turbo-stream>\<newline>  '']\<close>
  using partial_rendered_once [where options = "Some example_options"
      and opts = example_options and p = "''messages/show''" and view = example_view
      and res = fresh_response and key = Append and target = "''messages''"]
  by (simp add: example_options_def example_view_def)

text \<open>
  Claim C3: when the view engine reports an error for the partial and locals of a call,
  the promise of the action method is rejected with that same error value, the view
  engine has been called once only, and no body is written.
\<close>

theorem render_error_propagates:
  assumes "options = Some opts" and "partial opts = Some p" and "p \<noteq> ''''"
    and "fst (view p (locals opts)) = Some err"
  shows "snd (action_method view key target options res) = Inl err
    \<and> bodies_sent (new_effects res (fst (action_method view key target options res))) = []
    \<and> render_calls (new_effects res (fst (action_method view key target options res))) =
        [(p, locals opts)]"
proof -
  from assms(4) have "view p (locals opts) = (Some err, snd (view p (locals opts)))"
    by (cases "view p (locals opts)") simp
  from handler_rejected [where view = view and action = key and target = target
      and res = res, OF assms(1-3) this]
  show ?thesis
    by (simp add: action_method_handler new_effects_append)
qed

theorem render_error_propagates_witness:
  "fst (example_view ''nope'' None) = Some ''Failed to lookup view nope''
   \<and> snd (action_method example_view Remove ''messages''
        (Some \<lparr>partial = Some ''nope'', locals = None\<rparr>) fresh_response) =
      Inl ''Failed to lookup view nope''
   \<and> bodies_sent (new_effects fresh_response
        (fst (action_method example_view Remove ''messages''
           (Some \<lparr>partial = Some ''nope'', locals = None\<rparr>) fresh_response))) = []
   \<and> render_calls (new_effects fresh_response
        (fst (action_method example_view Remove ''messages''
           (Some \<lparr>partial = Some ''nope'', locals = None\<rparr>) fresh_response))) =
      [(''nope'', None)]"
  using render_error_propagates [where options = "Some \<lparr>partial = Some ''nope'', locals = None\<rparr>"
      and opts = "\<lparr>partial = Some ''nope'', locals = None\<rparr>" and p = "''nope''"
      and view = example_view and err = "''Failed to lookup view nope''"
      and res = fresh_response and key = Remove and target = "''messages''"]
  by (simp add: example_view_def)

subsection \<open>The order of the calls\<close>

text \<open>
  Claim C4, as stated, compared with the code. The claim puts the render of the partial
  before the setting of the content-type header. In the call of the documentation the
  header is set first and the partial rendered second: \<^verbatim>\<open>res.setHeader\<close> is a statement
  of its own, ahead of the statement that awaits \<^verbatim>\<open>stream\<close>.
\<close>

theorem render_not_before_header:
  "\<not> before is_Render is_SetHeader (new_effects fresh_response
       (fst (action_method example_view Append ''messages'' (Some example_options)
          fresh_response)))"
  unfolding example_call
  by (simp add: new_effects_def fresh_response_def)

text \<open>
  Claim C4, amended: within every call of an action method the content-type header is
  set before the partial is rendered, and the partial is rendered before the body is
  written; when a non-empty partial is rendered with success the calls made are exactly
  these three, in this order.
\<close>

theorem header_then_render_then_send:
  "before is_SetHeader is_Render
      (new_effects res (fst (action_method view key target options res)))
   \<and> before is_Render is_Send
      (new_effects res (fst (action_method view key target options res)))
   \<and> before is_SetHeader is_Send
      (new_effects res (fst (action_method view key target options res)))
   \<and> (options = Some opts \<and> partial opts = Some p \<and> p \<noteq> '''' \<and>
        view p (locals opts) = (None, html) \<longrightarrow>
      new_effects res (fst (action_method view key target options res)) =
        [SetHeader ''Content-Type'' (Multi [''text/html; turbo-stream; charset=utf-8'']),
         Render p (locals opts),
         Send (envelope (action_value key) target html)])"
proof -
  have order: "before is_SetHeader is_Render
      (new_effects res (fst (streamActionHandler view key target options res)))
   \<and> before is_Render is_Send
      (new_effects res (fst (streamActionHandler view key target options res)))
   \<and> before is_SetHeader is_Send
      (new_effects res (fst (streamActionHandler view key target options res)))"
  proof (cases rule: handler_cases [where options = options and view = view])
    case plain
    then show ?thesis
      by (simp add: handler_without_partial new_effects_append)
  next
    case (resolved opts' p' html')
    from handler_resolved [where view = view and action = key and target = target
        and res = res, OF this]
    show ?thesis
      by (simp add: new_effects_append)
  next
    case (rejected opts' p' err html')
    from handler_rejected [where view = view and action = key and target = target
        and res = res, OF this]
    show ?thesis
      by (simp add: new_effects_append)
  qed
  have exact: "new_effects res (fst (streamActionHandler view key target options res)) =
        [SetHeader ''Content-Type'' (Multi [''text/html; turbo-stream; charset=utf-8'']),
         Render p (locals opts),
         Send (envelope (action_value key) target html)]"
    if "options = Some opts \<and> partial opts = Some p \<and> p \<noteq> '''' \<and>
        view p (locals opts) = (None, html)"
  proof -
    from that have "streamActionHandler view key target options res =
      (res\<lparr>effects := effects res @
         [SetHeader ''Content-Type'' (Multi [''text/html; turbo-stream; charset=utf-8'']),
          Render p (locals opts),
          Send (envelope (action_value key) target html)]\<rparr>, Inr ())"
      by (intro handler_resolved) simp_all
    then show ?thesis
      by (simp add: new_effects_append)
  qed
  from order exact show ?thesis
    by (simp add: action_method_handler)
qed

theorem header_then_render_then_send_witness:
  "example_view ''messages/show'' (locals example_options) = (None, ''<p>My new message</p>'')
   \<and> before is_SetHeader is_Render (new_effects fresh_response
       (fst (action_method example_view Append ''messages'' (Some example_options)
          fresh_response)))
   \<and> before is_Render is_Send (new_effects fresh_response
       (fst (action_method example_view Append ''messages'' (Some example_options)
          fresh_response)))
   \<and> new_effects fresh_response
       (fst (action_method example_view Append ''messages'' (Some example_options)
          fresh_response)) =
      [SetHeader ''Content-Type'' (Multi [''text/html; turbo-stream; charset=utf-8'']),
       Render ''messages/show'' (Some example_locals),
       Send (envelope ''append'' ''messages'' ''<p>My new message</p>'')]"
  using header_then_render_then_send [where options = "Some example_options"
      and opts = example_options and p = "''messages/show''" and view = example_view
      and html = "''<p>My new message</p>''" and res = fresh_response and key = Append
      and target = "''messages''"]
  by (simp add: example_options_def example_view_def)

text \<open>
  Claim C5: for every action and every call in which rendering succeeds, the call with no
  partial included, the content-type header is set before the body is written: the
  calls made start with the setting of the header and end with the one write of a body.
\<close>

theorem header_before_body:
  fixes res :: "'a Response"
  assumes "snd (action_method view key target options res) = Inr ()"
  shows "\<exists>v mid body.
      new_effects res (fst (action_method view key target options res)) =
        SetHeader ''Content-Type'' v # mid @ [Send body]
      \<and> headers_set mid = [] \<and> bodies_sent mid = []"
proof (cases rule: handler_cases [where options = options and view = view])
  case plain
  then have "new_effects res (fst (action_method view key target options res)) =
      SetHeader ''Content-Type'' (Multi [''text/html; turbo-stream; charset=utf-8'']) # [] @
        [Send (envelope (action_value key) target '''')]
      \<and> headers_set ([] :: 'a effect list) = [] \<and> bodies_sent ([] :: 'a effect list) = []"
    by (simp add: action_method_handler handler_without_partial new_effects_append)
  then show ?thesis
    by blast
next
  case (resolved opts p html)
  from handler_resolved [where view = view and action = key and target = target
      and res = res, OF this]
  have "new_effects res (fst (action_method view key target options res)) =
      SetHeader ''Content-Type'' (Multi [''text/html; turbo-stream; charset=utf-8'']) #
        [Render p (locals opts)] @ [Send (envelope (action_value key) target html)]
      \<and> headers_set [Render p (locals opts)] = []
      \<and> bodies_sent [Render p (locals opts)] = []"
    by (simp add: action_method_handler new_effects_append)
  then show ?thesis
    by blast
next
  case (rejected opts p err html)
  from handler_rejected [where view = view and action = key and target = target
      and res = res, OF this]
  have "snd (action_method view key target options res) = Inl err"
    by (simp add: action_method_handler)
  with assms show ?thesis by simp
qed

theorem header_before_body_witness:
  "snd (action_method example_view Update ''messages'' None fresh_response) = Inr ()
   \<and> (\<exists>v mid body.
      new_effects fresh_response
        (fst (action_method example_view Update ''messages'' None fresh_response)) =
        SetHeader ''Content-Type'' v # mid @ [Send body]
      \<and> headers_set mid = [] \<and> bodies_sent mid = [])"
proof -
  have ok: "snd (action_method example_view Update ''messages'' None fresh_response) = Inr ()"
    by (simp add: action_method_handler handler_without_partial)
  from ok header_before_body [OF ok] show ?thesis by simp
qed

text \<open>
  Claim C6: in every call of an action method, the value the content-type header of the
  response is set to is exactly the string \<^verbatim>\<open>text/html; turbo-stream; charset=utf-8\<close>.
  The code sets the header \<^verbatim>\<open>Content-Type\<close> once, passing an array whose one element is
  that string, so the response carries one content-type line and its value is that
  string; no other header is set.
\<close>

theorem header_value_fixed:
  "header_lines_set (new_effects res (fst (action_method view key target options res))) =
     [(''Content-Type'', ''text/html; turbo-stream; charset=utf-8'')]
   \<and> headers_set (new_effects res (fst (action_method view key target options res))) =
     [(''Content-Type'', Multi [''text/html; turbo-stream; charset=utf-8''])]"
proof (cases rule: handler_cases [where options = options and view = view])
  case plain
  then show ?thesis
    by (simp add: action_method_handler handler_without_partial new_effects_append)
next
  case (resolved opts p html)
  from handler_resolved [where view = view and action = key and target = target
      and res = res, OF this]
  show ?thesis
    by (simp add: action_method_handler new_effects_append)
next
  case (rejected opts p err html)
  from handler_rejected [where view = view and action = key and target = target
      and res = res, OF this]
  show ?thesis
    by (simp add: action_method_handler new_effects_append)
qed

theorem header_value_fixed_witness:
  "header_lines_set (new_effects fresh_response
       (fst (action_method example_view Append ''messages''
          (Some \<lparr>partial = Some ''nope'', locals = None\<rparr>) fresh_response))) =
     [(''Content-Type'', ''text/html; turbo-stream; charset=utf-8'')]
   \<and> header_lines_set (new_effects fresh_response
       (fst (action_method example_view Append ''messages'' (Some example_options)
          fresh_response))) =
     [(''Content-Type'', ''text/html; turbo-stream; charset=utf-8'')]"
  using header_value_fixed [where res = fresh_response and view = example_view
      and key = Append and target = "''messages''"
      and options = "Some \<lparr>partial = Some ''nope'', locals = None\<rparr>"]
    header_value_fixed [where res = fresh_response and view = example_view
      and key = Append and target = "''messages''"
      and options = "Some example_options"]
  by simp

subsection \<open>No partial\<close>

text \<open>
  Claim C7: for every call of an action method in which \<^verbatim>\<open>options.partial\<close> is absent,
  the view engine is not called and the fragment in the envelope is the empty string; a
  call without options and a call with options whose partial is undefined do the same
  and send the same envelope.
\<close>

theorem absent_partial_empty_fragment:
  assumes "partial_absent options"
  shows "render_calls (new_effects res (fst (action_method view key target options res))) = []
    \<and> bodies_sent (new_effects res (fst (action_method view key target options res))) =
        [envelope (action_value key) target '''']
    \<and> action_method view key target options res = action_method view key target None res
    \<and> action_method view key target (Some \<lparr>partial = None, locals = ls\<rparr>) res =
        action_method view key target None res"
proof -
  from assms have "case options of None \<Rightarrow> True
      | Some opts \<Rightarrow> partial opts = None \<or> partial opts = Some ''''"
    by (simp add: partial_absent_def split: option.splits)
  then have "streamActionHandler view key target options res =
    (res\<lparr>effects := effects res @
       [SetHeader ''Content-Type'' (Multi [''text/html; turbo-stream; charset=utf-8'']),
        Send (envelope (action_value key) target '''')]\<rparr>, Inr ())"
    by (rule handler_without_partial)
  then show ?thesis
    by (simp add: action_method_handler handler_without_partial new_effects_append)
qed

theorem absent_partial_empty_fragment_witness:
  "partial_absent (Some \<lparr>partial = None, locals = Some example_locals\<rparr>)
   \<and> render_calls (new_effects fresh_response
        (fst (action_method example_view Replace ''messages''
           (Some \<lparr>partial = None, locals = Some example_locals\<rparr>) fresh_response))) = []
   \<and> bodies_sent (new_effects fresh_response
        (fst (action_method example_view Replace ''messages''
           (Some \<lparr>partial = None, locals = Some example_locals\<rparr>) fresh_response))) =
      [envelope ''replace'' ''messages'' '''']
   \<and> action_method example_view Replace ''messages''
        (Some \<lparr>partial = None, locals = Some example_locals\<rparr>) fresh_response =
      action_method example_view Replace ''messages'' None fresh_response"
proof -
  have absent: "partial_absent (Some \<lparr>partial = None, locals = Some example_locals\<rparr>)"
    by (simp add: partial_absent_def)
  from absent absent_partial_empty_fragment [OF absent, where res = fresh_response
      and view = example_view and key = Replace and target = "''messages''"]
  show ?thesis unfolding action_value.simps by blast
qed

text \<open>
  Claim C10: options whose partial is the empty string are treated as options without a
  partial. The view engine is not called, the fragment is the empty string, and the call
  does what the call without options does.
\<close>

theorem empty_partial_as_absent:
  "action_method view key target (Some \<lparr>partial = Some '''', locals = ls\<rparr>) res =
     action_method view key target None res
   \<and> render_calls (new_effects res
        (fst (action_method view key target (Some \<lparr>partial = Some '''', locals = ls\<rparr>) res))) =
      []
   \<and> bodies_sent (new_effects res
        (fst (action_method view key target (Some \<lparr>partial = Some '''', locals = ls\<rparr>) res))) =
      [envelope (action_value key) target '''']"
  by (simp add: action_method_handler handler_without_partial new_effects_append)

theorem empty_partial_as_absent_witness:
  "action_method example_view Prepend ''messages''
       (Some \<lparr>partial = Some '''', locals = Some example_locals\<rparr>) fresh_response =
     (\<lparr>effects =
        [SetHeader ''Content-Type'' (Multi [''text/html; turbo-stream; charset=utf-8'']),
         Send (envelope ''prepend'' ''messages'' '''')],
       turboStream = None\<rparr>, Inr ())"
  using empty_partial_as_absent [where view = example_view and key = Prepend
      and target = "''messages''" and ls = "Some example_locals" and res = fresh_response]
  by (simp add: action_method_handler handler_without_partial fresh_response_def)

subsection \<open>One handler for five actions\<close>

text \<open>
  Claim C8: the five action methods differ in the action value of the envelope and in
  nothing else. For every target, options, view engine and response there are a list of
  calls and an outcome of the rendering, both independent of the action, such that
  every method makes those calls and then, when the rendering gave a fragment, sends the
  envelope of its own action value, the target and that fragment, and otherwise is
  rejected with the error of the rendering.
\<close>

theorem methods_differ_in_action_only:
  "\<exists>calls fragment. \<forall>key.
      action_method view key target options res =
        (case fragment of
           Inl err \<Rightarrow> (res\<lparr>effects := effects res @ calls\<rparr>, Inl err)
         | Inr content \<Rightarrow>
             (res\<lparr>effects := effects res @ calls @
                [Send (envelope (action_value key) target content)]\<rparr>, Inr ()))"
proof (cases rule: handler_cases [where options = options and view = view])
  case plain
  then have "\<forall>key. action_method view key target options res =
      (case Inr '''' of
         Inl err \<Rightarrow>
           (res\<lparr>effects := effects res @
              [SetHeader ''Content-Type''
                 (Multi [''text/html; turbo-stream; charset=utf-8''])]\<rparr>, Inl err)
       | Inr content \<Rightarrow>
           (res\<lparr>effects := effects res @
              [SetHeader ''Content-Type''
                 (Multi [''text/html; turbo-stream; charset=utf-8''])] @
              [Send (envelope (action_value key) target content)]\<rparr>, Inr ()))"
    by (simp add: action_method_handler handler_without_partial)
  then show ?thesis by blast
next
  case (resolved opts p html)
  have "\<forall>key. action_method view key target options res =
      (case Inr html of
         Inl err \<Rightarrow>
           (res\<lparr>effects := effects res @
              [SetHeader ''Content-Type''
                 (Multi [''text/html; turbo-stream; charset=utf-8'']),
               Render p (locals opts)]\<rparr>, Inl err)
       | Inr content \<Rightarrow>
           (res\<lparr>effects := effects res @
              [SetHeader ''Content-Type''
                 (Multi [''text/html; turbo-stream; charset=utf-8'']),
               Render p (locals opts)] @
              [Send (envelope (action_value key) target content)]\<rparr>, Inr ()))"
    by (simp add: action_method_handler handler_resolved [where view = view, OF resolved])
  then show ?thesis by blast
next
  case (rejected opts p err html)
  have "\<forall>key. action_method view key target options res =
      (case Inl err of
         Inl err \<Rightarrow>
           (res\<lparr>effects := effects res @
              [SetHeader ''Content-Type''
                 (Multi [''text/html; turbo-stream; charset=utf-8'']),
               Render p (locals opts)]\<rparr>, Inl err)
       | Inr content \<Rightarrow>
           (res\<lparr>effects := effects res @
              [SetHeader ''Content-Type''
                 (Multi [''text/html; turbo-stream; charset=utf-8'']),
               Render p (locals opts)] @
              [Send (envelope (action_value key) target content)]\<rparr>, Inr ()))"
    by (simp add: action_method_handler handler_rejected [where view = view, OF rejected])
  then show ?thesis by blast
qed

theorem methods_differ_in_action_only_witness:
  "\<exists>calls fragment. \<forall>key.
      action_method example_view key ''messages'' (Some example_options) fresh_response =
        (case fragment of
           Inl err \<Rightarrow> (fresh_response\<lparr>effects := effects fresh_response @ calls\<rparr>, Inl err)
         | Inr content \<Rightarrow>
             (fresh_response\<lparr>effects := effects fresh_response @ calls @
                [Send (envelope (action_value key) ''messages'' content)]\<rparr>, Inr ()))"
  by (rule methods_differ_in_action_only)

subsection \<open>The middleware\<close>

text \<open>
  Claim C9: for every request the middleware attaches the object with the five action
  methods to the response and then calls the continuation, once and in every case: what
  the middleware returns the pipeline is what the continuation makes of the response
  that carries the object, with the one call of the continuation logged.
\<close>

theorem middleware_attaches_then_calls_next:
  "middleware req res next =
     next (res\<lparr>turboStream := Some turboStream_object, effects := effects res @ [Next]\<rparr>)
   \<and> (\<forall>key. invoke view (entry turboStream_object key) = streamActionHandler view key)
   \<and> buildMiddleware () req res next = middleware req res next"
proof -
  have "invoke view (entry turboStream_object key) = streamActionHandler view key" for key
    by (cases key) (simp_all add: turboStream_object_def)
  then show ?thesis
    by (simp add: middleware_def buildMiddleware_def call_def)
qed

theorem middleware_attaches_then_calls_next_witness:
  "middleware () fresh_response (\<lambda>res. res) =
     \<lparr>effects = [Next], turboStream = Some turboStream_object\<rparr>
   \<and> middleware () fresh_response (\<lambda>res. fst (action_method example_view Append ''messages''
        (Some example_options) res)) =
     \<lparr>effects =
        [Next,
         SetHeader ''Content-Type'' (Multi [''text/html; turbo-stream; charset=utf-8'']),
         Render ''messages/show'' (Some example_locals),
         Send (envelope ''append'' ''messages'' ''<p>My new message</p>'')],
      turboStream = Some turboStream_object\<rparr>"
  using middleware_attaches_then_calls_next [of "()" fresh_response "\<lambda>res. res"
      example_view]
    middleware_attaches_then_calls_next [of "()" fresh_response
      "\<lambda>res. fst (action_method example_view Append ''messages''
        (Some example_options) res)" example_view]
  by (simp add: action_method_handler
      handler_resolved [where opts = example_options and p = "''messages/show''"
        and html = "''<p>My new message</p>''"]
      example_options_def example_view_def fresh_response_def)

end
